theory Spec2Isabelle
  imports Complex_Main
begin

section \<open>Python values\<close>

text \<open>
  The two entry points \<^verbatim>\<open>app.py\<close> and \<^verbatim>\<open>appy.py\<close> read three numbers from
  \<^verbatim>\<open>st.number_input\<close> widgets: \<^verbatim>\<open>first_term\<close> and the step are Python floats, and
  \<^verbatim>\<open>num_terms\<close> is a Python int. An int is modelled by \<^typ>\<open>int\<close>; the indices that
  \<^verbatim>\<open>range\<close> produces are never negative and are modelled by \<^typ>\<open>nat\<close>.

  A float is modelled by its value: a finite float by the rational number it denotes, and
  the three special values by constructors of their own. What is modelled of the arithmetic
  is the control flow that floats cause: a sum or product that leaves the range of a
  double becomes an infinity, \<^verbatim>\<open>**\<close> raises \<^verbatim>\<open>OverflowError\<close> when its result leaves
  that range, and \<^verbatim>\<open>int(x)\<close> raises on an infinity or a NaN.

  The value of a finite result is an idealisation: the model keeps the exact rational where
  Python rounds it to the nearest double (and lets it underflow to zero, with a sign).
  The theorems below therefore state the value of a finite result only through the
  operation that computes it (\<open>float_add\<close>, \<open>float_mul\<close>, \<open>float_pow\<close>), or on integers
  of magnitude at most \<open>2\<^sup>5\<^sup>3\<close>, which doubles hold exactly, so that Python computes what
  the model computes there. Whether a result is finite, infinite or raises is decided by
  the exact value against the overflow threshold.
\<close>

datatype py_error = OverflowError | ValueError | IndexError

datatype pyfloat = Finite rat | PInf | NInf | NaN

text \<open>
  Under rounding to nearest, a result overflows when its magnitude reaches
  \<open>2\<^sup>1\<^sup>0\<^sup>2\<^sup>4 - 2\<^sup>9\<^sup>7\<^sup>0\<close>, half a unit in the last place above the largest double.
\<close>

definition overflow_threshold :: rat where
  "overflow_threshold = 2 ^ 1024 - 2 ^ 970"

definition float_of_exact :: "rat \<Rightarrow> pyfloat" where
  "float_of_exact q =
     (if overflow_threshold \<le> q then PInf
      else if q \<le> - overflow_threshold then NInf
      else Finite q)"

text \<open>
  \<^verbatim>\<open>float(i)\<close> for a loop index \<open>i\<close>, the conversion Python applies to the int operand of
  \<^verbatim>\<open>i * common_difference\<close> and \<^verbatim>\<open>common_ratio ** i\<close>. The conversion is exact for the
  indices of any list that fits in memory (it would raise only from \<open>i \<ge> 2\<^sup>1\<^sup>0\<^sup>2\<^sup>4 - 2\<^sup>9\<^sup>7\<^sup>0\<close> on).
\<close>

definition py_float :: "nat \<Rightarrow> pyfloat" where
  "py_float i = Finite (of_nat i)"

fun float_add :: "pyfloat \<Rightarrow> pyfloat \<Rightarrow> pyfloat" where
  "float_add (Finite x) (Finite y) = float_of_exact (x + y)"
| "float_add NaN y = NaN"
| "float_add x NaN = NaN"
| "float_add PInf NInf = NaN"
| "float_add NInf PInf = NaN"
| "float_add PInf y = PInf"
| "float_add NInf y = NInf"
| "float_add (Finite x) PInf = PInf"
| "float_add (Finite x) NInf = NInf"

fun float_mul :: "pyfloat \<Rightarrow> pyfloat \<Rightarrow> pyfloat" where
  "float_mul (Finite x) (Finite y) = float_of_exact (x * y)"
| "float_mul NaN y = NaN"
| "float_mul x NaN = NaN"
| "float_mul PInf (Finite y) = (if y = 0 then NaN else if 0 < y then PInf else NInf)"
| "float_mul NInf (Finite y) = (if y = 0 then NaN else if 0 < y then NInf else PInf)"
| "float_mul (Finite x) PInf = (if x = 0 then NaN else if 0 < x then PInf else NInf)"
| "float_mul (Finite x) NInf = (if x = 0 then NaN else if 0 < x then NInf else PInf)"
| "float_mul PInf PInf = PInf"
| "float_mul PInf NInf = NInf"
| "float_mul NInf PInf = NInf"
| "float_mul NInf NInf = PInf"

text \<open>
  \<^verbatim>\<open>x ** i\<close> for a float \<open>x\<close> and an index \<open>i\<close>, in the order of CPython's
  \<^verbatim>\<open>float_pow\<close>: any base to the power 0 is 1.0 (so \<^verbatim>\<open>0.0 ** 0 == 1.0\<close>), a NaN
  stays a NaN, an infinity stays infinite, and a finite base whose power leaves the range
  of a double raises \<^verbatim>\<open>OverflowError\<close> (\<^verbatim>\<open>10.0 ** 309\<close> does).
\<close>

fun float_pow :: "pyfloat \<Rightarrow> nat \<Rightarrow> py_error + pyfloat" where
  "float_pow x 0 = Inr (Finite 1)"
| "float_pow NaN i = Inr NaN"
| "float_pow PInf i = Inr PInf"
| "float_pow NInf i = Inr (if odd i then NInf else PInf)"
| "float_pow (Finite x) i =
     (if overflow_threshold \<le> \<bar>x ^ i\<bar> then Inl OverflowError else Inr (Finite (x ^ i)))"

text \<open>\<^verbatim>\<open>range(num_terms)\<close>: the indices \<open>0, \<dots>, num_terms - 1\<close>, none when \<open>num_terms \<le> 0\<close>.\<close>

definition py_range :: "int \<Rightarrow> nat list" where
  "py_range num_terms = [0..<nat num_terms]"

section \<open>The generators\<close>

text \<open>
  Each generator starts from the empty list and appends one term per index. The loop is
  the recursion over the indices still to visit, the list built so far is its accumulator.
\<close>

subsection \<open>\<^verbatim>\<open>app.py\<close>\<close>

fun app_arithmetic_loop :: "pyfloat \<Rightarrow> pyfloat \<Rightarrow> nat list \<Rightarrow> pyfloat list \<Rightarrow> pyfloat list" where
  "app_arithmetic_loop first_term common_difference [] sequence = sequence"
| "app_arithmetic_loop first_term common_difference (i # rest) sequence =
     app_arithmetic_loop first_term common_difference rest
       (sequence @ [float_add first_term (float_mul (py_float i) common_difference)])"

definition app_generate_arithmetic_sequence :: "pyfloat \<Rightarrow> pyfloat \<Rightarrow> int \<Rightarrow> pyfloat list" where
  "app_generate_arithmetic_sequence first_term common_difference num_terms =
     app_arithmetic_loop first_term common_difference (py_range num_terms) []"

subsection \<open>\<^verbatim>\<open>appy.py\<close>\<close>

fun arithmetic_loop :: "pyfloat \<Rightarrow> pyfloat \<Rightarrow> nat list \<Rightarrow> pyfloat list \<Rightarrow> pyfloat list" where
  "arithmetic_loop first_term common_difference [] sequence = sequence"
| "arithmetic_loop first_term common_difference (i # rest) sequence =
     arithmetic_loop first_term common_difference rest
       (sequence @ [float_add first_term (float_mul (py_float i) common_difference)])"

definition generate_arithmetic_sequence :: "pyfloat \<Rightarrow> pyfloat \<Rightarrow> int \<Rightarrow> pyfloat list" where
  "generate_arithmetic_sequence first_term common_difference num_terms =
     arithmetic_loop first_term common_difference (py_range num_terms) []"

fun geometric_loop :: "pyfloat \<Rightarrow> pyfloat \<Rightarrow> nat list \<Rightarrow> pyfloat list \<Rightarrow> py_error + pyfloat list" where
  "geometric_loop first_term common_ratio [] sequence = Inr sequence"
| "geometric_loop first_term common_ratio (i # rest) sequence =
     (case float_pow common_ratio i of
        Inl e \<Rightarrow> Inl e
      | Inr p \<Rightarrow> geometric_loop first_term common_ratio rest (sequence @ [float_mul first_term p]))"

definition generate_geometric_sequence :: "pyfloat \<Rightarrow> pyfloat \<Rightarrow> int \<Rightarrow> py_error + pyfloat list" where
  "generate_geometric_sequence first_term common_ratio num_terms =
     geometric_loop first_term common_ratio (py_range num_terms) []"

section \<open>Formatting\<close>

text \<open>
  Both entry points format a term twice with the same expression, once per metric
  (\<^verbatim>\<open>term_str\<close>) and once in the list comprehension of \<^verbatim>\<open>sequence_str\<close>:
  \<^verbatim>\<open>str(int(term)) if term == int(term) else f"{term:.2f}"\<close>.
\<close>

text \<open>\<^verbatim>\<open>str(k)\<close> for an int: its decimal digits, after a minus sign when it is negative.\<close>

definition digit_char :: "nat \<Rightarrow> char" where
  "digit_char d = ''0123456789'' ! d"

fun str_nat :: "nat \<Rightarrow> string" where
  "str_nat n = (if n < 10 then [digit_char n] else str_nat (n div 10) @ [digit_char (n mod 10)])"

declare str_nat.simps [simp del]

definition str_int :: "int \<Rightarrow> string" where
  "str_int k = (if k < 0 then CHR ''-'' # str_nat (nat (- k)) else str_nat (nat k))"

text \<open>\<^verbatim>\<open>int(x)\<close> truncates a finite float towards zero and raises on an infinity or a NaN.\<close>

definition py_trunc :: "rat \<Rightarrow> int" where
  "py_trunc q = (if 0 \<le> q then \<lfloor>q\<rfloor> else \<lceil>q\<rceil>)"

fun py_int :: "pyfloat \<Rightarrow> py_error + int" where
  "py_int (Finite q) = Inr (py_trunc q)"
| "py_int PInf = Inl OverflowError"
| "py_int NInf = Inl OverflowError"
| "py_int NaN = Inl ValueError"

text \<open>\<^verbatim>\<open>x == k\<close> for a float and an int compares the exact values.\<close>

fun float_eq_int :: "pyfloat \<Rightarrow> int \<Rightarrow> bool" where
  "float_eq_int (Finite q) k = (q = of_int k)"
| "float_eq_int x k = False"

text \<open>
  \<^verbatim>\<open>f"{x:.2f}"\<close> rounds the exact value of the float to two decimals, a tie going to the
  even neighbour (\<^verbatim>\<open>f"{0.125:.2f}"\<close> is \<^verbatim>\<open>0.12\<close> and \<^verbatim>\<open>f"{0.375:.2f}"\<close> is \<^verbatim>\<open>0.38\<close>), and
  keeps the sign of a negative value that rounds to zero (\<^verbatim>\<open>f"{-0.001:.2f}"\<close> is
  \<^verbatim>\<open>-0.00\<close>).
\<close>

definition round_half_even :: "rat \<Rightarrow> int" where
  "round_half_even q =
     (let f = \<lfloor>q\<rfloor>; r = q - of_int f
      in if r < 1 / 2 then f else if 1 / 2 < r then f + 1 else if even f then f else f + 1)"

definition format_2f :: "rat \<Rightarrow> string" where
  "format_2f q =
     (let m = nat (round_half_even (\<bar>q\<bar> * 100))
      in (if q < 0 then ''-'' else []) @ str_nat (m div 100) @ ''.'' @
         [digit_char (m mod 100 div 10), digit_char (m mod 10)])"

fun float_format_2f :: "pyfloat \<Rightarrow> string" where
  "float_format_2f (Finite q) = format_2f q"
| "float_format_2f PInf = ''inf''"
| "float_format_2f NInf = ''-inf''"
| "float_format_2f NaN = ''nan''"

definition term_str :: "pyfloat \<Rightarrow> py_error + string" where
  "term_str t =
     (case py_int t of
        Inl e \<Rightarrow> Inl e
      | Inr k \<Rightarrow> if float_eq_int t k then Inr (str_int k) else Inr (float_format_2f t))"

text \<open>A list comprehension whose element expression can raise: the first error ends it.\<close>

fun comprehension :: "('a \<Rightarrow> py_error + 'b) \<Rightarrow> 'a list \<Rightarrow> py_error + 'b list" where
  "comprehension f [] = Inr []"
| "comprehension f (x # xs) =
     (case f x of
        Inl e \<Rightarrow> Inl e
      | Inr y \<Rightarrow> (case comprehension f xs of Inl e \<Rightarrow> Inl e | Inr ys \<Rightarrow> Inr (y # ys)))"

text \<open>\<^verbatim>\<open>sep.join(strings)\<close>.\<close>

fun py_join :: "string \<Rightarrow> string list \<Rightarrow> string" where
  "py_join sep [] = []"
| "py_join sep [s] = s"
| "py_join sep (s # t # rest) = s @ sep @ py_join sep (t # rest)"

definition sequence_str :: "pyfloat list \<Rightarrow> py_error + string" where
  "sequence_str sequence =
     (case comprehension term_str sequence of
        Inl e \<Rightarrow> Inl e
      | Inr strings \<Rightarrow> Inr (py_join '', '' strings))"

section \<open>The summary\<close>

text \<open>
  \<^verbatim>\<open>sum(sequence)\<close> adds the elements from left to right, starting from the int 0, which
  the first addition converts to the float 0.0.
\<close>

definition py_sum :: "pyfloat list \<Rightarrow> pyfloat" where
  "py_sum sequence = foldl float_add (Finite 0) sequence"

text \<open>
  The value of the metric \<^verbatim>\<open>Sum of Terms\<close>:
  \<^verbatim>\<open>f"{sequence_sum:.2f}" if sequence_sum != int(sequence_sum) else int(sequence_sum)\<close>,
  a string for a sum with a fractional part and an int otherwise.
\<close>

datatype metric_value = Text string | Number int

definition sum_metric :: "pyfloat \<Rightarrow> py_error + metric_value" where
  "sum_metric sequence_sum =
     (case py_int sequence_sum of
        Inl e \<Rightarrow> Inl e
      | Inr k \<Rightarrow>
          if \<not> float_eq_int sequence_sum k then Inr (Text (float_format_2f sequence_sum))
          else Inr (Number k))"

text \<open>\<^verbatim>\<open>sequence[-1]\<close> raises \<^verbatim>\<open>IndexError\<close> on the empty list.\<close>

definition last_term :: "pyfloat list \<Rightarrow> py_error + pyfloat" where
  "last_term sequence = (if sequence = [] then Inl IndexError else Inr (last sequence))"

section \<open>The entry points\<close>

text \<open>
  \<^verbatim>\<open>main\<close> reads the widgets, validates \<^verbatim>\<open>num_terms\<close> and then, inside
  \<^verbatim>\<open>try ... except Exception\<close>, generates the sequence and shows it. The model takes the
  widget values as arguments and returns what the page ends with: one of the three
  \<^verbatim>\<open>st.error\<close> messages, or the values shown after \<^verbatim>\<open>st.success\<close>. The layout (rows of
  ten metrics, their labels, the LaTeX of the formulas, the footer) is not modelled, nor are
  the elements already drawn when an exception reaches the handler.
\<close>

datatype st_error =
    Not_positive \<comment> \<open>\<^verbatim>\<open>Number of terms must be a positive integer!\<close>\<close>
  | Exceeds_maximum \<comment> \<open>\<^verbatim>\<open>Number of terms cannot exceed 1000!\<close>\<close>
  | Error_occurred py_error \<comment> \<open>\<^verbatim>\<open>An error occurred while generating the sequence: ...\<close>\<close>

record shown =
  metrics :: "string list"
  complete_sequence :: string
  last_metric :: pyfloat
  sum_of_terms :: metric_value

datatype outcome = St_error st_error | St_success shown

text \<open>The part of the \<^verbatim>\<open>try\<close> block that follows the call of the generator.\<close>

definition show_sequence :: "pyfloat list \<Rightarrow> py_error + shown" where
  "show_sequence sequence =
     (case comprehension term_str sequence of
        Inl e \<Rightarrow> Inl e
      | Inr strs \<Rightarrow>
     (case sequence_str sequence of
        Inl e \<Rightarrow> Inl e
      | Inr joined \<Rightarrow>
     (case last_term sequence of
        Inl e \<Rightarrow> Inl e
      | Inr final \<Rightarrow>
     (case sum_metric (py_sum sequence) of
        Inl e \<Rightarrow> Inl e
      | Inr sum_value \<Rightarrow>
          Inr \<lparr>metrics = strs, complete_sequence = ''['' @ joined @ '']'',
               last_metric = final, sum_of_terms = sum_value\<rparr>))))"

definition try_block :: "py_error + pyfloat list \<Rightarrow> outcome" where
  "try_block generated =
     (case generated of
        Inl e \<Rightarrow> St_error (Error_occurred e)
      | Inr sequence \<Rightarrow>
          (case show_sequence sequence of
             Inl e \<Rightarrow> St_error (Error_occurred e)
           | Inr page \<Rightarrow> St_success page))"

text \<open>
  The generators are arguments of the bodies, so that a theorem can say that an outcome
  does not depend on them; \<open>app_main\<close> and \<open>appy_main\<close> are the bodies with the
  generators of their files.
\<close>

definition app_main_body ::
  "(pyfloat \<Rightarrow> pyfloat \<Rightarrow> int \<Rightarrow> pyfloat list) \<Rightarrow> pyfloat \<Rightarrow> pyfloat \<Rightarrow> int \<Rightarrow> outcome" where
  "app_main_body generate first_term common_difference num_terms =
     (if num_terms \<le> 0 then St_error Not_positive
      else if 1000 < num_terms then St_error Exceeds_maximum
      else try_block (Inr (generate first_term common_difference num_terms)))"

definition app_main :: "pyfloat \<Rightarrow> pyfloat \<Rightarrow> int \<Rightarrow> outcome" where
  "app_main = app_main_body app_generate_arithmetic_sequence"

definition appy_main_body ::
  "(pyfloat \<Rightarrow> pyfloat \<Rightarrow> int \<Rightarrow> pyfloat list) \<Rightarrow>
   (pyfloat \<Rightarrow> pyfloat \<Rightarrow> int \<Rightarrow> py_error + pyfloat list) \<Rightarrow>
   string \<Rightarrow> pyfloat \<Rightarrow> pyfloat \<Rightarrow> int \<Rightarrow> outcome" where
  "appy_main_body generate_arithmetic generate_geometric sequence_type first_term second_param
     num_terms =
     (if num_terms \<le> 0 then St_error Not_positive
      else if 1000 < num_terms then St_error Exceeds_maximum
      else try_block
        (if sequence_type = ''Arithmetic''
         then Inr (generate_arithmetic first_term second_param num_terms)
         else generate_geometric first_term second_param num_terms))"

definition appy_main :: "string \<Rightarrow> pyfloat \<Rightarrow> pyfloat \<Rightarrow> int \<Rightarrow> outcome" where
  "appy_main = appy_main_body generate_arithmetic_sequence generate_geometric_sequence"

section \<open>Vocabulary of the claims about formatting\<close>

text \<open>
  These definitions are not part of the program; the statements about the strings that the
  program builds are written with them. \<open>finite_str\<close> names the string that
  \<open>term_str\<close> yields for a finite float, \<open>is_digit\<close> recognises a decimal digit, and
  \<open>int_of_str\<close> reads an integer literal back.
\<close>

definition is_digit :: "char \<Rightarrow> bool" where
  "is_digit c = (c \<in> set ''0123456789'')"

definition finite_str :: "rat \<Rightarrow> string" where
  "finite_str q = (if q = of_int (py_trunc q) then str_int (py_trunc q) else format_2f q)"

definition digit_value :: "char \<Rightarrow> nat" where
  "digit_value c = of_char c - 48"

definition nat_of_str :: "string \<Rightarrow> nat" where
  "nat_of_str s = foldl (\<lambda>n c. 10 * n + digit_value c) 0 s"

definition int_of_str :: "string \<Rightarrow> int" where
  "int_of_str s = (case s of [] \<Rightarrow> 0 | c # cs \<Rightarrow> if c = CHR ''-'' then - int (nat_of_str cs) else int (nat_of_str s))"

section \<open>The loops as maps\<close>

lemma app_arithmetic_loop_map:
  "app_arithmetic_loop a d is acc =
     acc @ map (\<lambda>i. float_add a (float_mul (py_float i) d)) is"
  by (induction "is" arbitrary: acc) simp_all

lemma arithmetic_loop_map:
  "arithmetic_loop a d is acc =
     acc @ map (\<lambda>i. float_add a (float_mul (py_float i) d)) is"
  by (induction "is" arbitrary: acc) simp_all

lemma app_generate_arithmetic_map:
  "app_generate_arithmetic_sequence a d n =
     map (\<lambda>i. float_add a (float_mul (py_float i) d)) [0..<nat n]"
  by (simp add: app_generate_arithmetic_sequence_def py_range_def app_arithmetic_loop_map)

lemma generate_arithmetic_map:
  "generate_arithmetic_sequence a d n =
     map (\<lambda>i. float_add a (float_mul (py_float i) d)) [0..<nat n]"
  by (simp add: generate_arithmetic_sequence_def py_range_def arithmetic_loop_map)

lemma generate_arithmetic_length:
  "length (generate_arithmetic_sequence a d n) = nat n"
  by (simp add: generate_arithmetic_map)

lemma app_generate_arithmetic_length:
  "length (app_generate_arithmetic_sequence a d n) = nat n"
  by (simp add: app_generate_arithmetic_map)

section \<open>The range of a double\<close>

lemma overflow_threshold_gt_1: "1 < overflow_threshold"
  by (simp add: overflow_threshold_def)

lemma overflow_threshold_pos: "0 < overflow_threshold"
  using overflow_threshold_gt_1 by simp

lemma float_of_exact_in_range: "\<bar>q\<bar> < overflow_threshold \<Longrightarrow> float_of_exact q = Finite q"
  by (auto simp add: float_of_exact_def)

lemma float_of_exact_not_NaN: "float_of_exact q \<noteq> NaN"
  by (simp add: float_of_exact_def)

lemma float_add_Finite_not_NaN: "z \<noteq> NaN \<Longrightarrow> float_add (Finite x) z \<noteq> NaN"
  by (cases z) (simp_all add: float_of_exact_not_NaN)

lemma arithmetic_term_not_NaN:
  "float_add (Finite a) (float_mul (py_float i) (Finite d)) \<noteq> NaN"
  by (simp add: py_float_def float_add_Finite_not_NaN float_of_exact_not_NaN)

lemma float_pow_Finite:
  "float_pow (Finite x) i =
     (if overflow_threshold \<le> \<bar>x ^ i\<bar> then Inl OverflowError else Inr (Finite (x ^ i)))"
  using overflow_threshold_gt_1 by (cases i) simp_all

lemma arithmetic_first_term:
  assumes "\<bar>a\<bar> < overflow_threshold"
  shows "float_add (Finite a) (float_mul (py_float 0) (Finite d)) = Finite a"
  using assms overflow_threshold_pos
  by (simp add: py_float_def float_of_exact_in_range)

lemma geometric_first_term:
  assumes "\<bar>a\<bar> < overflow_threshold"
  shows "float_mul (Finite a) (Finite (r ^ 0)) = Finite a"
  using assms by (simp add: float_of_exact_in_range)

section \<open>The geometric loop\<close>

text \<open>
  The loop of the geometric generator either visits every index, or stops at the first
  index whose power overflows.
\<close>

lemma geometric_loop_in_range:
  "\<forall>i\<in>set is. \<bar>x ^ i\<bar> < overflow_threshold \<Longrightarrow>
   geometric_loop a (Finite x) is acc =
     Inr (acc @ map (\<lambda>i. float_mul a (Finite (x ^ i))) is)"
  by (induction "is" arbitrary: acc) (simp_all add: float_pow_Finite)

lemma geometric_loop_overflow:
  "i \<in> set is \<Longrightarrow> overflow_threshold \<le> \<bar>x ^ i\<bar> \<Longrightarrow>
   geometric_loop a (Finite x) is acc = Inl OverflowError"
  by (induction "is" arbitrary: acc) (auto simp add: float_pow_Finite)

lemma generate_geometric_in_range:
  assumes "\<forall>i<nat n. \<bar>x ^ i\<bar> < overflow_threshold"
  shows "generate_geometric_sequence a (Finite x) n =
           Inr (map (\<lambda>i. float_mul a (Finite (x ^ i))) [0..<nat n])"
  using assms
  by (simp add: generate_geometric_sequence_def py_range_def geometric_loop_in_range)

lemma generate_geometric_overflow:
  assumes "i < nat n" and "overflow_threshold \<le> \<bar>x ^ i\<bar>"
  shows "generate_geometric_sequence a (Finite x) n = Inl OverflowError"
  unfolding generate_geometric_sequence_def py_range_def
  using assms by (intro geometric_loop_overflow [of i]) simp_all

section \<open>Sums of exactly representable integers\<close>








section \<open>The strings\<close>

lemma digit_cases: "d < 10 \<Longrightarrow> d \<in> {0, 1, 2, 3, 4, 5, 6, 7, 8, 9::nat}"
  by auto

lemma is_digit_digit_char: "d < 10 \<Longrightarrow> is_digit (digit_char d)"
  by (drule digit_cases) (auto simp add: is_digit_def digit_char_def)

lemma digit_value_digit_char: "d < 10 \<Longrightarrow> digit_value (digit_char d) = d"
  by (drule digit_cases) (auto simp add: digit_value_def digit_char_def)

lemma digit_char_not_minus: "d < 10 \<Longrightarrow> digit_char d \<noteq> CHR ''-''"
  by (drule digit_cases) (auto simp add: digit_char_def)

lemma str_nat_digits: "list_all is_digit (str_nat n)"
proof (induction n rule: str_nat.induct)
  case (1 n)
  show ?case
  proof (cases "n < 10")
    case True
    then show ?thesis by (subst str_nat.simps) (simp add: is_digit_digit_char)
  next
    case False
    with 1 show ?thesis by (subst str_nat.simps) (simp add: is_digit_digit_char)
  qed
qed

lemma str_nat_not_empty: "str_nat n \<noteq> []"
  by (subst str_nat.simps) simp

lemma nat_of_str_snoc: "nat_of_str (s @ [c]) = 10 * nat_of_str s + digit_value c"
  by (simp add: nat_of_str_def)

lemma nat_of_str_str_nat: "nat_of_str (str_nat n) = n"
proof (induction n rule: str_nat.induct)
  case (1 n)
  show ?case
  proof (cases "n < 10")
    case True
    then show ?thesis
      by (subst str_nat.simps) (simp add: nat_of_str_def digit_value_digit_char)
  next
    case False
    with 1 have "nat_of_str (str_nat (n div 10)) = n div 10" by simp
    with False show ?thesis
      by (subst str_nat.simps) (simp add: nat_of_str_snoc digit_value_digit_char)
  qed
qed

lemma hd_str_nat_not_minus: "hd (str_nat n) \<noteq> CHR ''-''"
proof (induction n rule: str_nat.induct)
  case (1 n)
  show ?case
  proof (cases "n < 10")
    case True
    then show ?thesis by (subst str_nat.simps) (simp add: digit_char_not_minus)
  next
    case False
    with 1 show ?thesis
      by (subst str_nat.simps) (simp add: str_nat_not_empty)
  qed
qed

lemma int_of_str_str_int: "int_of_str (str_int k) = k"
proof (cases "k < 0")
  case True
  then show ?thesis by (simp add: int_of_str_def str_int_def nat_of_str_str_nat)
next
  case False
  obtain c cs where s: "str_nat (nat k) = c # cs"
    using str_nat_not_empty [of "nat k"] by (cases "str_nat (nat k)") auto
  with hd_str_nat_not_minus [of "nat k"] have "c \<noteq> CHR ''-''" by simp
  with False s nat_of_str_str_nat [of "nat k"] show ?thesis
    by (simp add: int_of_str_def str_int_def)
qed

lemma term_str_Finite: "term_str (Finite q) = Inr (finite_str q)"
  by (simp add: term_str_def finite_str_def)

lemma comprehension_term_str_Finite:
  "comprehension term_str (map Finite qs) = Inr (map finite_str qs)"
  by (induction qs) (simp_all add: term_str_Finite)

lemma py_join_butlast:
  "ss \<noteq> [] \<Longrightarrow> py_join sep ss = concat (map (\<lambda>s. s @ sep) (butlast ss)) @ last ss"
  by (induction sep ss rule: py_join.induct) simp_all

lemma sequence_str_Finite:
  "sequence_str (map Finite qs) = Inr (py_join '', '' (map finite_str qs))"
  by (simp add: sequence_str_def comprehension_term_str_Finite)

section \<open>The page\<close>

lemma try_block_not_validation_error:
  "try_block generated \<noteq> St_error Not_positive \<and> try_block generated \<noteq> St_error Exceeds_maximum"
  by (simp add: try_block_def split: sum.splits)

section \<open>Claims\<close>

text \<open>
  C1. For every finite first term \<open>a\<close> and common difference \<open>d\<close> and every index
  \<open>i\<close> below \<open>num_terms\<close>, element \<open>i\<close> of the sequence that the arithmetic generator
  (either copy) returns is the value that Python computes for the expression
  \<^verbatim>\<open>a + i * d\<close>, and that value is never a NaN, so \<^verbatim>\<open>sequence[i] == a + i * d\<close> holds in
  Python.
\<close>

theorem arithmetic_element:
  assumes "i < nat num_terms"
  shows "app_generate_arithmetic_sequence (Finite a) (Finite d) num_terms ! i =
           float_add (Finite a) (float_mul (py_float i) (Finite d)) \<and>
         generate_arithmetic_sequence (Finite a) (Finite d) num_terms ! i =
           float_add (Finite a) (float_mul (py_float i) (Finite d)) \<and>
         float_add (Finite a) (float_mul (py_float i) (Finite d)) \<noteq> NaN"
  using assms arithmetic_term_not_NaN [of a i d]
  by (simp add: app_generate_arithmetic_map generate_arithmetic_map)

theorem arithmetic_element_witness:
  "app_generate_arithmetic_sequence (Finite 10) (Finite (- 2)) 4 ! 3 = Finite 4 \<and>
   generate_arithmetic_sequence (Finite 10) (Finite (- 2)) 4 ! 3 = Finite 4"
proof -
  have h: "(3::nat) < nat 4" by simp
  have v: "float_add (Finite 10) (float_mul (py_float 3) (Finite (- 2))) = Finite 4"
    by (simp add: py_float_def float_of_exact_def overflow_threshold_def)
  from arithmetic_element [OF h, of 10 "- 2"] show ?thesis
    unfolding v by blast
qed

text \<open>
  C2, as stated, fails: with first term 1.0 and ratio 3.0 the geometric generator returns
  no sequence of 1000 terms, because \<^verbatim>\<open>3.0 ** 647\<close> raises \<^verbatim>\<open>OverflowError\<close>.
\<close>

theorem geometric_element_counterexample:
  "generate_geometric_sequence (Finite 1) (Finite 3) 1000 = Inl OverflowError"
proof -
  have "(647::nat) < nat 1000" by simp
  moreover have "overflow_threshold \<le> \<bar>(3::rat) ^ 647\<bar>"
    by (simp add: overflow_threshold_def)
  ultimately show ?thesis by (rule generate_geometric_overflow)
qed

text \<open>
  C2, amended. For every finite first term \<open>a\<close> and ratio \<open>r\<close>: when every power \<open>r\<^sup>i\<close>
  with \<open>i\<close> below \<open>num_terms\<close> stays in the range of a double, the geometric generator
  returns a sequence of \<open>num_terms\<close> elements whose element \<open>i\<close> is the value that Python
  computes for \<^verbatim>\<open>a * r ** i\<close>, the product of \<open>a\<close> and the result \<open>p\<close> of \<^verbatim>\<open>r ** i\<close>, never
  a NaN; the ratio 0 and negative ratios are not special cases. When some power leaves the
  range, the generator raises \<^verbatim>\<open>OverflowError\<close> and returns no sequence.
\<close>

theorem geometric_element:
  "((\<forall>i<nat num_terms. \<bar>r ^ i\<bar> < overflow_threshold) \<longrightarrow>
      (\<exists>sequence.
         generate_geometric_sequence (Finite a) (Finite r) num_terms = Inr sequence \<and>
         length sequence = nat num_terms \<and>
         (\<forall>i<nat num_terms. \<exists>p.
            float_pow (Finite r) i = Inr p \<and>
            sequence ! i = float_mul (Finite a) p \<and>
            sequence ! i \<noteq> NaN))) \<and>
   ((\<exists>i<nat num_terms. overflow_threshold \<le> \<bar>r ^ i\<bar>) \<longrightarrow>
      generate_geometric_sequence (Finite a) (Finite r) num_terms = Inl OverflowError)"
proof (intro conjI impI)
  assume "\<forall>i<nat num_terms. \<bar>r ^ i\<bar> < overflow_threshold"
  then show "\<exists>sequence.
         generate_geometric_sequence (Finite a) (Finite r) num_terms = Inr sequence \<and>
         length sequence = nat num_terms \<and>
         (\<forall>i<nat num_terms. \<exists>p.
            float_pow (Finite r) i = Inr p \<and>
            sequence ! i = float_mul (Finite a) p \<and>
            sequence ! i \<noteq> NaN)"
    by (auto simp add: generate_geometric_in_range float_pow_Finite float_of_exact_not_NaN
        not_le [symmetric])
next
  assume "\<exists>i<nat num_terms. overflow_threshold \<le> \<bar>r ^ i\<bar>"
  then show "generate_geometric_sequence (Finite a) (Finite r) num_terms = Inl OverflowError"
    by (auto intro: generate_geometric_overflow)
qed

theorem geometric_element_witness:
  "(\<exists>sequence.
      generate_geometric_sequence (Finite 1) (Finite (- 1)) 4 = Inr sequence \<and>
      length sequence = 4 \<and> sequence ! 2 = Finite 1 \<and> sequence ! 3 = Finite (- 1)) \<and>
   generate_geometric_sequence (Finite 1) (Finite 2) 1025 = Inl OverflowError"
proof -
  have h: "\<forall>i<nat 4. \<bar>(- 1 :: rat) ^ i\<bar> < overflow_threshold"
    using overflow_threshold_gt_1 by (simp add: power_abs)
  from geometric_element [of 4 "- 1" 1] h obtain sequence where
    s: "generate_geometric_sequence (Finite 1) (Finite (- 1)) 4 = Inr sequence"
      "length sequence = nat 4"
      "\<forall>i<nat 4. \<exists>p. float_pow (Finite (- 1)) i = Inr p \<and>
         sequence ! i = float_mul (Finite 1) p \<and> sequence ! i \<noteq> NaN"
    by blast
  have p2: "float_pow (Finite (- 1)) 2 = Inr (Finite 1)"
    using overflow_threshold_gt_1 by (simp add: float_pow_Finite)
  have p3: "float_pow (Finite (- 1)) 3 = Inr (Finite (- 1))"
    using overflow_threshold_gt_1 by (simp add: float_pow_Finite)
  have m2: "float_mul (Finite 1) (Finite 1) = Finite 1"
    using overflow_threshold_gt_1 by (simp add: float_of_exact_in_range)
  have m3: "float_mul (Finite 1) (Finite (- 1)) = Finite (- 1)"
    using overflow_threshold_gt_1 by (simp add: float_of_exact_in_range)
  have "(2::nat) < nat 4" and "(3::nat) < nat 4" by simp_all
  with s(3) obtain p q where
    "float_pow (Finite (- 1)) 2 = Inr p" "sequence ! 2 = float_mul (Finite 1) p"
    "float_pow (Finite (- 1)) 3 = Inr q" "sequence ! 3 = float_mul (Finite 1) q"
    by blast
  with p2 p3 m2 m3 have "sequence ! 2 = Finite 1" and "sequence ! 3 = Finite (- 1)"
    by simp_all
  with s(1,2) have first: "\<exists>sequence.
      generate_geometric_sequence (Finite 1) (Finite (- 1)) 4 = Inr sequence \<and>
      length sequence = 4 \<and> sequence ! 2 = Finite 1 \<and> sequence ! 3 = Finite (- 1)"
    by simp
  have "(1024::nat) < nat 1025" by simp
  moreover have "overflow_threshold \<le> \<bar>(2::rat) ^ 1024\<bar>"
    by (simp add: overflow_threshold_def)
  ultimately have "\<exists>i<nat 1025. overflow_threshold \<le> \<bar>(2::rat) ^ i\<bar>" by blast
  with geometric_element [of 1025 2 1]
  have "generate_geometric_sequence (Finite 1) (Finite 2) 1025 = Inl OverflowError"
    by blast
  with first show ?thesis by blast
qed

text \<open>
  C3, as stated, fails: with first term 1.0 and ratio 10.0 the geometric generator returns
  no list of 400 elements, because \<^verbatim>\<open>10.0 ** 309\<close> raises \<^verbatim>\<open>OverflowError\<close>.
\<close>

theorem length_and_first_term_counterexample:
  "generate_geometric_sequence (Finite 1) (Finite 10) 400 = Inl OverflowError"
proof -
  have "(309::nat) < nat 400" by simp
  moreover have "overflow_threshold \<le> \<bar>(10::rat) ^ 309\<bar>"
    by (simp add: overflow_threshold_def)
  ultimately show ?thesis by (rule generate_geometric_overflow)
qed

text \<open>
  C3, amended. For every \<open>num_terms \<ge> 1\<close>, every finite first term \<open>a\<close> and every finite
  step \<open>s\<close>, each copy of the arithmetic generator returns a list of exactly \<open>num_terms\<close>
  elements whose first element is \<open>a\<close>; the geometric generator does so too whenever
  every power \<open>s\<^sup>i\<close> with \<open>i\<close> below \<open>num_terms\<close> stays in the range of a double.
\<close>

theorem length_and_first_term:
  assumes "1 \<le> num_terms" and "\<bar>a\<bar> < overflow_threshold"
  shows "length (app_generate_arithmetic_sequence (Finite a) (Finite s) num_terms) = nat num_terms \<and>
         hd (app_generate_arithmetic_sequence (Finite a) (Finite s) num_terms) = Finite a \<and>
         length (generate_arithmetic_sequence (Finite a) (Finite s) num_terms) = nat num_terms \<and>
         hd (generate_arithmetic_sequence (Finite a) (Finite s) num_terms) = Finite a \<and>
         ((\<forall>i<nat num_terms. \<bar>s ^ i\<bar> < overflow_threshold) \<longrightarrow>
            (\<exists>sequence.
               generate_geometric_sequence (Finite a) (Finite s) num_terms = Inr sequence \<and>
               length sequence = nat num_terms \<and> hd sequence = Finite a))"
proof -
  from assms(1) have n: "0 < nat num_terms" by simp
  then have u: "[0..<nat num_terms] = 0 # [1..<nat num_terms]"
    by (simp add: upt_conv_Cons)
  show ?thesis
    using n arithmetic_first_term [OF assms(2)] geometric_first_term [OF assms(2)]
    by (simp add: app_generate_arithmetic_map generate_arithmetic_map
        generate_geometric_in_range hd_map u del: upt_Suc)
qed

theorem length_and_first_term_witness:
  "length (app_generate_arithmetic_sequence (Finite 3) (Finite 1) 4) = 4 \<and>
   hd (app_generate_arithmetic_sequence (Finite 3) (Finite 1) 4) = Finite 3 \<and>
   length (generate_arithmetic_sequence (Finite 3) (Finite 1) 4) = 4 \<and>
   hd (generate_arithmetic_sequence (Finite 3) (Finite 1) 4) = Finite 3 \<and>
   (\<exists>sequence.
      generate_geometric_sequence (Finite 3) (Finite 1) 4 = Inr sequence \<and>
      length sequence = 4 \<and> hd sequence = Finite 3)"
proof -
  have h1: "(1::int) \<le> 4" by simp
  have h2: "\<bar>3::rat\<bar> < overflow_threshold"
    by (simp add: overflow_threshold_def)
  have h3: "\<forall>i<nat 4. \<bar>(1::rat) ^ i\<bar> < overflow_threshold"
    using overflow_threshold_gt_1 by simp
  have n: "nat 4 = 4" by simp
  from length_and_first_term [OF h1 h2, of 1] h3 show ?thesis
    unfolding n by blast
qed

text \<open>
  C4. In both entry points a \<open>num_terms \<le> 0\<close> ends with the message that the number of
  terms must be positive, and a \<open>num_terms > 1000\<close> with the message that it cannot exceed
  1000; the outcome is the same whichever generators the body is given, so no generator has
  run. For \<open>1 \<le> num_terms \<le> 1000\<close>, in particular for 1 and for 1000, validation passes:
  the outcome is that of the \<^verbatim>\<open>try\<close> block on the generated sequence, never a validation
  message.
\<close>

theorem validation_boundary:
  "(num_terms \<le> 0 \<longrightarrow>
      app_main_body generate first_term step num_terms = St_error Not_positive \<and>
      appy_main_body generate generate_other sequence_type first_term step num_terms =
        St_error Not_positive) \<and>
   (1000 < num_terms \<longrightarrow>
      app_main_body generate first_term step num_terms = St_error Exceeds_maximum \<and>
      appy_main_body generate generate_other sequence_type first_term step num_terms =
        St_error Exceeds_maximum) \<and>
   (1 \<le> num_terms \<and> num_terms \<le> 1000 \<longrightarrow>
      app_main_body generate first_term step num_terms =
        try_block (Inr (generate first_term step num_terms)) \<and>
      appy_main_body generate generate_other sequence_type first_term step num_terms =
        try_block (if sequence_type = ''Arithmetic''
                   then Inr (generate first_term step num_terms)
                   else generate_other first_term step num_terms) \<and>
      app_main_body generate first_term step num_terms \<noteq> St_error Not_positive \<and>
      app_main_body generate first_term step num_terms \<noteq> St_error Exceeds_maximum \<and>
      appy_main_body generate generate_other sequence_type first_term step num_terms \<noteq>
        St_error Not_positive \<and>
      appy_main_body generate generate_other sequence_type first_term step num_terms \<noteq>
        St_error Exceeds_maximum)"
  by (simp add: app_main_body_def appy_main_body_def try_block_not_validation_error)

theorem validation_boundary_witness:
  "app_main (Finite 1) (Finite 1) 0 = St_error Not_positive \<and>
   appy_main ''Geometric'' (Finite 1) (Finite 2) (- 4) = St_error Not_positive \<and>
   app_main (Finite 1) (Finite 1) 1001 = St_error Exceeds_maximum \<and>
   appy_main ''Geometric'' (Finite 1) (Finite 2) 1001 = St_error Exceeds_maximum \<and>
   app_main (Finite 1) (Finite 1) 1 \<noteq> St_error Not_positive \<and>
   app_main (Finite 1) (Finite 1) 1 \<noteq> St_error Exceeds_maximum \<and>
   app_main (Finite 1) (Finite 1) 1000 \<noteq> St_error Not_positive \<and>
   app_main (Finite 1) (Finite 1) 1000 \<noteq> St_error Exceeds_maximum \<and>
   appy_main ''Geometric'' (Finite 1) (Finite 2) 1000 \<noteq> St_error Exceeds_maximum"
proof -
  have z: "(0::int) \<le> 0" and m: "(- 4 :: int) \<le> 0" and big: "(1000::int) < 1001"
    and one: "(1::int) \<le> 1 \<and> (1::int) \<le> 1000" and top: "(1::int) \<le> 1000 \<and> (1000::int) \<le> 1000"
    by simp_all
  note v = validation_boundary
  from v [of 0 app_generate_arithmetic_sequence "Finite 1" "Finite 1"] z
  have 1: "app_main (Finite 1) (Finite 1) 0 = St_error Not_positive"
    unfolding app_main_def by blast
  from v [of "- 4" generate_arithmetic_sequence "Finite 1" "Finite 2"
      generate_geometric_sequence "''Geometric''"] m
  have 2: "appy_main ''Geometric'' (Finite 1) (Finite 2) (- 4) = St_error Not_positive"
    unfolding appy_main_def by blast
  from v [of 1001 app_generate_arithmetic_sequence "Finite 1" "Finite 1"] big
  have 3: "app_main (Finite 1) (Finite 1) 1001 = St_error Exceeds_maximum"
    unfolding app_main_def by blast
  from v [of 1001 generate_arithmetic_sequence "Finite 1" "Finite 2"
      generate_geometric_sequence "''Geometric''"] big
  have 4: "appy_main ''Geometric'' (Finite 1) (Finite 2) 1001 = St_error Exceeds_maximum"
    unfolding appy_main_def by blast
  from v [of 1 app_generate_arithmetic_sequence "Finite 1" "Finite 1"] one
  have 5: "app_main (Finite 1) (Finite 1) 1 \<noteq> St_error Not_positive \<and>
      app_main (Finite 1) (Finite 1) 1 \<noteq> St_error Exceeds_maximum"
    unfolding app_main_def by blast
  from v [of 1000 app_generate_arithmetic_sequence "Finite 1" "Finite 1"] top
  have 6: "app_main (Finite 1) (Finite 1) 1000 \<noteq> St_error Not_positive \<and>
      app_main (Finite 1) (Finite 1) 1000 \<noteq> St_error Exceeds_maximum"
    unfolding app_main_def by blast
  from v [of 1000 generate_arithmetic_sequence "Finite 1" "Finite 2"
      generate_geometric_sequence "''Geometric''"] top
  have 7: "appy_main ''Geometric'' (Finite 1) (Finite 2) 1000 \<noteq> St_error Exceeds_maximum"
    unfolding appy_main_def by blast
  from 1 2 3 4 5 6 7 show ?thesis by blast
qed

text \<open>
  C5, as stated, fails: called with \<open>num_terms < 1\<close>, each generator returns the empty
  list. No generator checks \<open>num_terms\<close>; \<^verbatim>\<open>range(num_terms)\<close> is empty, so the loop
  body never runs.
\<close>

theorem no_invalid_argument_counterexample:
  "app_generate_arithmetic_sequence (Finite 1) (Finite 1) 0 = [] \<and>
   generate_arithmetic_sequence (Finite 1) (Finite 1) 0 = [] \<and>
   generate_geometric_sequence (Finite 1) (Finite 2) (- 3) = Inr []"
  by (simp add: app_generate_arithmetic_sequence_def generate_arithmetic_sequence_def
      generate_geometric_sequence_def py_range_def)

text \<open>
  C5, amended. Called with \<open>num_terms < 1\<close>, the arithmetic generator (either copy) and
  the geometric generator return the empty sequence and raise no error, whatever the first
  term and the step are.
\<close>

theorem empty_below_one:
  assumes "num_terms < 1"
  shows "app_generate_arithmetic_sequence first_term step num_terms = [] \<and>
         generate_arithmetic_sequence first_term step num_terms = [] \<and>
         generate_geometric_sequence first_term step num_terms = Inr []"
  using assms
  by (simp add: app_generate_arithmetic_sequence_def generate_arithmetic_sequence_def
      generate_geometric_sequence_def py_range_def)

theorem empty_below_one_witness:
  "app_generate_arithmetic_sequence (Finite 5) (Finite 2) (- 7) = [] \<and>
   generate_arithmetic_sequence (Finite 5) (Finite 2) (- 7) = [] \<and>
   generate_geometric_sequence (Finite 5) (Finite 2) (- 7) = Inr []"
proof -
  have h: "(- 7 :: int) < 1" by simp
  from empty_below_one [OF h] show ?thesis .
qed




text \<open>
  C7, as stated, fails: not every float is rendered. A term can be an infinity (with first
  term 0.0 and common difference \<open>10\<^sup>3\<^sup>0\<^sup>8\<close> the third term \<^verbatim>\<open>2 * 1e308\<close> is
  \<^verbatim>\<open>inf\<close>), and for an infinity or a NaN the conversion \<^verbatim>\<open>int(term)\<close> raises, so no
  string is produced.
\<close>

theorem term_str_counterexample:
  "term_str PInf = Inl OverflowError \<and> term_str NInf = Inl OverflowError \<and>
   term_str NaN = Inl ValueError"
  by (simp add: term_str_def)

text \<open>
  C7, amended. For every finite float \<open>x\<close>: when \<open>x\<close> equals its truncation towards
  zero, the formatter renders that integer as a literal, an optional minus sign followed by
  decimal digits only, which reads back as the integer; otherwise it renders \<open>x\<close> as an
  optional minus sign, decimal digits, a point and exactly two decimal digits. The
  sequence display of finite floats is the formatted elements in order, each but the last
  followed by a comma and a space.
\<close>

theorem term_str_finite:
  "(x = of_int (py_trunc x) \<longrightarrow>
      term_str (Finite x) = Inr (str_int (py_trunc x)) \<and>
      int_of_str (str_int (py_trunc x)) = py_trunc x \<and>
      (\<exists>ds. ds \<noteq> [] \<and> list_all is_digit ds \<and>
         str_int (py_trunc x) = (if x < 0 then ''-'' else []) @ ds)) \<and>
   (x \<noteq> of_int (py_trunc x) \<longrightarrow>
      (\<exists>ds d1 d2. ds \<noteq> [] \<and> list_all is_digit ds \<and> is_digit d1 \<and> is_digit d2 \<and>
         term_str (Finite x) = Inr ((if x < 0 then ''-'' else []) @ ds @ ''.'' @ [d1, d2]))) \<and>
   sequence_str [] = Inr [] \<and>
   (qs \<noteq> [] \<longrightarrow>
      sequence_str (map Finite qs) =
        Inr (concat (map (\<lambda>q. finite_str q @ '', '') (butlast qs)) @ finite_str (last qs))) \<and>
   term_str (Finite x) = Inr (finite_str x)"
proof (intro conjI impI)
  assume int: "x = of_int (py_trunc x)"
  then show "term_str (Finite x) = Inr (str_int (py_trunc x))"
    by (simp add: term_str_Finite finite_str_def)
  show "int_of_str (str_int (py_trunc x)) = py_trunc x"
    by (rule int_of_str_str_int)
  have neg: "py_trunc x < 0 \<longleftrightarrow> x < 0"
    by (subst (2) int) simp
  show "\<exists>ds. ds \<noteq> [] \<and> list_all is_digit ds \<and>
         str_int (py_trunc x) = (if x < 0 then ''-'' else []) @ ds"
  proof (cases "x < 0")
    case True
    with neg show ?thesis
      by (intro exI [of _ "str_nat (nat (- py_trunc x))"])
        (simp add: str_int_def str_nat_digits str_nat_not_empty)
  next
    case False
    with neg show ?thesis
      by (intro exI [of _ "str_nat (nat (py_trunc x))"])
        (simp add: str_int_def str_nat_digits str_nat_not_empty)
  qed
next
  assume frac: "x \<noteq> of_int (py_trunc x)"
  define m where "m = nat (round_half_even (\<bar>x\<bar> * 100))"
  have "term_str (Finite x) =
      Inr ((if x < 0 then ''-'' else []) @ str_nat (m div 100) @ ''.'' @
        [digit_char (m mod 100 div 10), digit_char (m mod 10)])"
    using frac by (simp add: term_str_Finite finite_str_def format_2f_def m_def Let_def)
  moreover have "is_digit (digit_char (m mod 100 div 10))" and "is_digit (digit_char (m mod 10))"
    by (simp_all add: is_digit_digit_char)
  ultimately show "\<exists>ds d1 d2. ds \<noteq> [] \<and> list_all is_digit ds \<and> is_digit d1 \<and> is_digit d2 \<and>
         term_str (Finite x) = Inr ((if x < 0 then ''-'' else []) @ ds @ ''.'' @ [d1, d2])"
    using str_nat_digits [of "m div 100"] str_nat_not_empty [of "m div 100"] by blast
next
  show "sequence_str [] = Inr []" by (simp add: sequence_str_def)
next
  assume "qs \<noteq> []"
  then show "sequence_str (map Finite qs) =
        Inr (concat (map (\<lambda>q. finite_str q @ '', '') (butlast qs)) @ finite_str (last qs))"
    by (simp add: sequence_str_Finite py_join_butlast map_butlast last_map comp_def)
next
  show "term_str (Finite x) = Inr (finite_str x)" by (rule term_str_Finite)
qed

theorem term_str_finite_witness:
  "term_str (Finite (- 3)) = Inr ''-3'' \<and>
   term_str (Finite (5 / 2)) = Inr ''2.50'' \<and>
   sequence_str (map Finite [1, 3 / 2, - 22]) = Inr ''1, 1.50, -22''"
proof -
  have i: "(- 3 :: rat) = of_int (py_trunc (- 3))" by code_simp
  have f: "(5 / 2 :: rat) \<noteq> of_int (py_trunc (5 / 2))" by code_simp
  have n: "[1, 3 / 2, - 22 :: rat] \<noteq> []" by simp
  from term_str_finite [of "- 3" "[]"] i
  have "term_str (Finite (- 3)) = Inr (str_int (py_trunc (- 3)))" by blast
  moreover have "str_int (py_trunc (- 3)) = ''-3''" by code_simp
  ultimately have a: "term_str (Finite (- 3)) = Inr ''-3''" by simp
  from term_str_finite [of "5 / 2" "[1, 3 / 2, - 22]"] n
  have "term_str (Finite (5 / 2)) = Inr (finite_str (5 / 2))"
    and "sequence_str (map Finite [1, 3 / 2, - 22]) =
      Inr (concat (map (\<lambda>q. finite_str q @ '', '') (butlast [1, 3 / 2, - 22])) @
        finite_str (last [1, 3 / 2, - 22]))"
    by blast+
  moreover have "finite_str (5 / 2) = ''2.50''" by code_simp
  moreover have "concat (map (\<lambda>q. finite_str q @ '', '') (butlast [1, 3 / 2, - 22])) @
        finite_str (last [1, 3 / 2, - 22]) = ''1, 1.50, -22''" by code_simp
  ultimately show ?thesis using a by simp
qed

text \<open>
  C8. The two copies of the arithmetic generator, the one of \<^verbatim>\<open>app.py\<close> and the one of
  \<^verbatim>\<open>appy.py\<close>, return the same sequence for every first term, common difference and
  number of terms.
\<close>

theorem arithmetic_copies_equal:
  "app_generate_arithmetic_sequence first_term common_difference num_terms =
   generate_arithmetic_sequence first_term common_difference num_terms"
  by (simp add: app_generate_arithmetic_map generate_arithmetic_map)

text \<open>
  C9, as stated, fails: the geometric generator has a failing branch for finite inputs.
  With first term 2.0 and ratio -10.0 it returns no list of 500 elements, because
  \<^verbatim>\<open>(-10.0) ** 309\<close> raises \<^verbatim>\<open>OverflowError\<close>.
\<close>

theorem generators_total_counterexample:
  "generate_geometric_sequence (Finite 2) (Finite (- 10)) 500 = Inl OverflowError"
proof -
  have "(309::nat) < nat 500" by simp
  moreover have "overflow_threshold \<le> \<bar>(- 10 :: rat) ^ 309\<bar>"
    by (simp add: overflow_threshold_def power_abs)
  ultimately show ?thesis by (rule generate_geometric_overflow)
qed

text \<open>
  C9, amended. For every \<open>num_terms \<le> 0\<close> both generators return the empty list and
  raise no error. For \<open>num_terms \<ge> 1\<close> the arithmetic generator (either copy) returns a
  list of \<open>num_terms\<close> elements; the geometric generator, for a finite ratio \<open>r\<close>, returns
  a list of \<open>num_terms\<close> elements when every power \<open>r\<^sup>i\<close> with \<open>i\<close> below \<open>num_terms\<close>
  stays in the range of a double, and raises \<^verbatim>\<open>OverflowError\<close> when one of them does
  not. (The generators are total functions of the model: each loop is a recursion over the
  finite list of indices.)
\<close>

theorem generators_total:
  "(num_terms \<le> 0 \<longrightarrow>
      app_generate_arithmetic_sequence first_term step num_terms = [] \<and>
      generate_arithmetic_sequence first_term step num_terms = [] \<and>
      generate_geometric_sequence first_term step num_terms = Inr []) \<and>
   (1 \<le> num_terms \<longrightarrow>
      length (app_generate_arithmetic_sequence first_term step num_terms) = nat num_terms \<and>
      length (generate_arithmetic_sequence first_term step num_terms) = nat num_terms) \<and>
   (1 \<le> num_terms \<longrightarrow>
      (\<forall>i<nat num_terms. \<bar>r ^ i\<bar> < overflow_threshold) \<longrightarrow>
      (\<exists>sequence. generate_geometric_sequence first_term (Finite r) num_terms = Inr sequence \<and>
         length sequence = nat num_terms)) \<and>
   (1 \<le> num_terms \<longrightarrow>
      (\<exists>i<nat num_terms. overflow_threshold \<le> \<bar>r ^ i\<bar>) \<longrightarrow>
      generate_geometric_sequence first_term (Finite r) num_terms = Inl OverflowError)"
proof (intro conjI impI)
  assume "\<exists>i<nat num_terms. overflow_threshold \<le> \<bar>r ^ i\<bar>"
  then show "generate_geometric_sequence first_term (Finite r) num_terms = Inl OverflowError"
    by (auto intro: generate_geometric_overflow)
next
  assume "\<forall>i<nat num_terms. \<bar>r ^ i\<bar> < overflow_threshold"
  then show "\<exists>sequence.
      generate_geometric_sequence first_term (Finite r) num_terms = Inr sequence \<and>
      length sequence = nat num_terms"
    by (simp add: generate_geometric_in_range)
next
  assume "num_terms \<le> 0"
  then show "generate_geometric_sequence first_term step num_terms = Inr []"
    by (simp add: generate_geometric_sequence_def py_range_def)
qed (simp_all add: app_generate_arithmetic_map generate_arithmetic_map)

theorem generators_total_witness:
  "app_generate_arithmetic_sequence (Finite 1) (Finite 2) 0 = [] \<and>
   generate_arithmetic_sequence (Finite 1) (Finite 2) 0 = [] \<and>
   generate_geometric_sequence (Finite 1) (Finite 2) 0 = Inr [] \<and>
   length (app_generate_arithmetic_sequence (Finite 1) (Finite 2) 5) = 5 \<and>
   length (generate_arithmetic_sequence (Finite 1) (Finite 2) 5) = 5 \<and>
   (\<exists>sequence. generate_geometric_sequence (Finite 1) (Finite 2) 5 = Inr sequence \<and>
      length sequence = 5) \<and>
   generate_geometric_sequence (Finite 1) (Finite 2) 1025 = Inl OverflowError"
proof -
  have z: "(0::int) \<le> 0" by simp
  have p: "(1::int) \<le> 5" by simp
  have q: "(1::int) \<le> 1025" by simp
  have n: "nat 5 = 5" by simp
  have small: "\<forall>i<nat 5. \<bar>(2::rat) ^ i\<bar> < overflow_threshold"
  proof (intro allI impI)
    fix i :: nat assume "i < nat 5"
    then have "(2::rat) ^ i \<le> 2 ^ 5" by (intro power_increasing) simp_all
    also have "\<dots> < overflow_threshold" by (simp add: overflow_threshold_def)
    finally show "\<bar>(2::rat) ^ i\<bar> < overflow_threshold" by simp
  qed
  have "(1024::nat) < nat 1025" by simp
  moreover have "overflow_threshold \<le> \<bar>(2::rat) ^ 1024\<bar>"
    by (simp add: overflow_threshold_def)
  ultimately have big: "\<exists>i<nat 1025. overflow_threshold \<le> \<bar>(2::rat) ^ i\<bar>" by blast
  from generators_total [of 0 "Finite 1" "Finite 2" 2] z
  have a: "app_generate_arithmetic_sequence (Finite 1) (Finite 2) 0 = [] \<and>
      generate_arithmetic_sequence (Finite 1) (Finite 2) 0 = [] \<and>
      generate_geometric_sequence (Finite 1) (Finite 2) 0 = Inr []"
    by blast
  from generators_total [of 5 "Finite 1" "Finite 2" 2] p small
  have b: "length (app_generate_arithmetic_sequence (Finite 1) (Finite 2) 5) = nat 5 \<and>
      length (generate_arithmetic_sequence (Finite 1) (Finite 2) 5) = nat 5 \<and>
      (\<exists>sequence. generate_geometric_sequence (Finite 1) (Finite 2) 5 = Inr sequence \<and>
         length sequence = nat 5)"
    by blast
  from generators_total [of 1025 "Finite 1" "Finite 2" 2] q big
  have c: "generate_geometric_sequence (Finite 1) (Finite 2) 1025 = Inl OverflowError"
    by blast
  from a b c show ?thesis unfolding n by blast
qed

text \<open>
  C10. For every finite first term \<open>a\<close> and every \<open>num_terms \<ge> 1\<close>, the geometric
  generator called with ratio 0 returns \<open>a\<close> followed by \<open>num_terms - 1\<close> zeros: the
  power \<^verbatim>\<open>0.0 ** 0\<close> is 1.0, every later power is 0.
\<close>

theorem geometric_ratio_zero:
  assumes "1 \<le> num_terms" and "\<bar>a\<bar> < overflow_threshold"
  shows "generate_geometric_sequence (Finite a) (Finite 0) num_terms =
           Inr (Finite a # replicate (nat num_terms - 1) (Finite 0))"
proof -
  have in_range: "\<forall>i<nat num_terms. \<bar>(0::rat) ^ i\<bar> < overflow_threshold"
    using overflow_threshold_gt_1 by (simp add: power_0_left)
  from assms(1) have u: "[0..<nat num_terms] = 0 # map Suc [0..<nat num_terms - 1]"
    by (metis One_nat_def Suc_pred' map_Suc_upt upt_conv_Cons zero_less_nat_eq zero_less_one_class.zero_less_one order_less_le_trans)
  have z: "float_of_exact 0 = Finite 0"
    using overflow_threshold_pos by (simp add: float_of_exact_in_range)
  have "map (\<lambda>i. float_mul (Finite a) (Finite (0 ^ i))) [0..<nat num_terms] =
        Finite a # replicate (nat num_terms - 1) (Finite 0)"
    unfolding u using assms(2)
    by (simp add: float_of_exact_in_range z map_replicate_const comp_def)
  with generate_geometric_in_range [OF in_range] show ?thesis by simp
qed

theorem geometric_ratio_zero_witness:
  "generate_geometric_sequence (Finite 7) (Finite 0) 3 = Inr [Finite 7, Finite 0, Finite 0]"
proof -
  have h1: "(1::int) \<le> 3" by simp
  have h2: "\<bar>7::rat\<bar> < overflow_threshold" by (simp add: overflow_threshold_def)
  have "replicate (nat 3 - 1) (Finite 0) = [Finite 0, Finite 0]"
    by (simp add: numeral_2_eq_2)
  with geometric_ratio_zero [OF h1 h2] show ?thesis by simp
qed

end
